theory Spec2Isabelle
  imports Main
begin

section \<open>FS Nav: the alias table of \<^verbatim>\<open>fsnav/core.py\<close>\<close>

text \<open>
  \<^verbatim>\<open>Aliases\<close> is a subclass of Python's \<^verbatim>\<open>dict\<close> whose \<^verbatim>\<open>__setitem__\<close> validates the alias
  and the path. The dictionary is an association list in insertion order, the class's
  methods take the table and return it with their result, and an exception is a value
  on the left of a sum. A path argument is a \<open>string option\<close>: \<open>None\<close> is Python's
  \<^verbatim>\<open>None\<close>.
\<close>

subsection \<open>The operating system\<close>

text \<open>
  The calls of \<^verbatim>\<open>os.path\<close>, \<^verbatim>\<open>os.access\<close> and the wildcard search of \<^verbatim>\<open>glob\<close> read the
  machine the program runs on; they are the fields of an environment.
  \<^item> \<open>expanduser\<close>: \<^verbatim>\<open>os.path.expanduser\<close>
  \<^item> \<open>isdir\<close>: \<^verbatim>\<open>os.path.isdir\<close>
  \<^item> \<open>access_X_OK\<close>: \<^verbatim>\<open>os.access(path, os.X_OK)\<close>
  \<^item> \<open>path_exists\<close>: \<^verbatim>\<open>os.path.exists\<close>
  \<^item> \<open>lexists\<close>: \<^verbatim>\<open>os.path.lexists\<close>
  \<^item> \<open>wildcard\<close>: what \<^verbatim>\<open>glob.glob\<close> finds for a pattern that holds a metacharacter
\<close>

record os_env =
  expanduser :: "string \<Rightarrow> string"
  isdir :: "string \<Rightarrow> bool"
  access_X_OK :: "string \<Rightarrow> bool"
  path_exists :: "string \<Rightarrow> bool"
  lexists :: "string \<Rightarrow> bool"
  wildcard :: "string \<Rightarrow> string list"

subsection \<open>Exceptions\<close>

datatype error = ValueError string | KeyError string | TypeError string

definition quote :: char where
  "quote = CHR 0x27"

definition path_none_msg :: string where
  "path_none_msg = ''Path cannot be NoneType''"

definition invalid_alias_msg :: "string \<Rightarrow> string" where
  "invalid_alias_msg alias =
     ''Aliases can only contain alphanumeric characters and '-' or '_': '' @ [quote] @ alias @ [quote]"

definition invalid_path_msg :: "string \<Rightarrow> string" where
  "invalid_path_msg path = ''Can't access path: '' @ [quote] @ path @ [quote]"

subsection \<open>The alias pattern\<close>

text \<open>
  Modelled from the spec: \<^verbatim>\<open>settings.ALIAS_REGEX\<close> is a constant of \<^verbatim>\<open>fsnav/settings.py\<close>,
  which is not among the sources. The spec gives the pattern as one or more characters
  from \<^verbatim>\<open>[A-Za-z0-9_-]\<close>, no spaces or other punctuation; \<open>ALIAS_REGEX_match alias\<close> is
  \<^verbatim>\<open>re.match(settings.ALIAS_REGEX, alias) is not None\<close> for that pattern.
\<close>

definition alias_char :: "char \<Rightarrow> bool" where
  "alias_char c \<longleftrightarrow>
     c \<in> set ''ABCDEFGHIJKLMNOPQRSTUVWXYZabcdefghijklmnopqrstuvwxyz0123456789_-''"

definition ALIAS_REGEX_match :: "string \<Rightarrow> bool" where
  "ALIAS_REGEX_match alias \<longleftrightarrow> alias \<noteq> [] \<and> list_all alias_char alias"

subsection \<open>The dictionary underneath\<close>

type_synonym aliases = "(string \<times> string) list"

text \<open>
  \<^verbatim>\<open>dict.__setitem__\<close>: a key already present keeps its place and takes the new value, a
  new key goes last.
\<close>

fun dict_setitem :: "string \<Rightarrow> string \<Rightarrow> aliases \<Rightarrow> aliases" where
  "dict_setitem k v [] = [(k, v)]"
| "dict_setitem k v ((k', v') # d) =
     (if k' = k then (k, v) # d else (k', v') # dict_setitem k v d)"

text \<open>\<^verbatim>\<open>dict.__getitem__\<close>, which \<^verbatim>\<open>Aliases\<close> does not override: \<^verbatim>\<open>self[alias]\<close>.\<close>

definition getitem :: "string \<Rightarrow> aliases \<Rightarrow> error + string" where
  "getitem alias self =
     (case map_of self alias of
        None \<Rightarrow> Inl (KeyError alias)
      | Some path \<Rightarrow> Inr path)"

subsection \<open>\<^verbatim>\<open>Aliases.__setitem__\<close>\<close>

definition setitem ::
  "os_env \<Rightarrow> string \<Rightarrow> string option \<Rightarrow> aliases \<Rightarrow> (error + unit) \<times> aliases" where
  "setitem env alias path self =
     (case path of
        None \<Rightarrow> (Inl (ValueError path_none_msg), self)
      | Some path0 \<Rightarrow>
          (let path = expanduser env path0 in
             if \<not> ALIAS_REGEX_match alias then
               (Inl (KeyError (invalid_alias_msg alias)), self)
             else if \<not> isdir env path \<and> \<not> access_X_OK env path then
               (Inl (ValueError (invalid_path_msg path)), self)
             else (Inr (), dict_setitem alias path self)))"

subsection \<open>\<^verbatim>\<open>Aliases.setdefault\<close>\<close>

definition setdefault ::
  "os_env \<Rightarrow> string \<Rightarrow> string option \<Rightarrow> aliases \<Rightarrow> (error + string) \<times> aliases" where
  "setdefault env alias path self =
     (case getitem alias self of
        Inr _ \<Rightarrow> (getitem alias self, self)
      | Inl (KeyError _) \<Rightarrow>
          (case setitem env alias path self of
             (Inl e, self') \<Rightarrow> (Inl e, self')
           | (Inr _, self') \<Rightarrow> (getitem alias self', self'))
      | Inl e \<Rightarrow> (Inl e, self))"

subsection \<open>\<^verbatim>\<open>Aliases.update\<close> and the constructor\<close>

text \<open>The loop \<^verbatim>\<open>for alias, path in ...: self[alias] = path\<close>; an exception ends it.\<close>

fun setitems ::
  "os_env \<Rightarrow> (string \<times> string option) list \<Rightarrow> aliases \<Rightarrow> (error + unit) \<times> aliases" where
  "setitems env [] self = (Inr (), self)"
| "setitems env ((alias, path) # rest) self =
     (case setitem env alias path self of
        (Inl e, self') \<Rightarrow> (Inl e, self')
      | (Inr _, self') \<Rightarrow> setitems env rest self')"

text \<open>
  What \<^verbatim>\<open>alias_iterable\<close> can be: \<^verbatim>\<open>None\<close>, an object with \<^verbatim>\<open>keys\<close> (a dictionary, its
  items in order), a sequence of pairs, or a string, which is a sequence too: of
  one-character strings.
\<close>

datatype alias_iterable =
  NoIterable
| Mapping "(string \<times> string option) list"
| Pairs "(string \<times> string option) list"
| Str string

text \<open>
  Iterating a dictionary gives its keys, and \<^verbatim>\<open>alias_iterable[alias]\<close> the value of each.
\<close>

definition mapping_items ::
  "(string \<times> string option) list \<Rightarrow> (string \<times> string option) list" where
  "mapping_items m = map (\<lambda>alias. (alias, the (map_of m alias))) (map fst m)"

definition unpack_msg :: string where
  "unpack_msg = ''not enough values to unpack (expected 2, got 1)''"

definition update ::
  "os_env \<Rightarrow> alias_iterable \<Rightarrow> (string \<times> string option) list \<Rightarrow> aliases
     \<Rightarrow> (error + unit) \<times> aliases" where
  "update env alias_iterable alias_path self =
     (case (case alias_iterable of
              NoIterable \<Rightarrow> (Inr (), self)
            | Mapping m \<Rightarrow>
                (if m \<noteq> [] then setitems env (mapping_items m) self else (Inr (), self))
            | Pairs ps \<Rightarrow>
                (if ps \<noteq> [] then setitems env ps self else (Inr (), self))
            | Str s \<Rightarrow>
                (if s \<noteq> [] then (Inl (ValueError unpack_msg), self) else (Inr (), self))) of
        (Inl e, self') \<Rightarrow> (Inl e, self')
      | (Inr _, self') \<Rightarrow> setitems env alias_path self')"

text \<open>
  \<^verbatim>\<open>Aliases(alias_iterable, **alias_path)\<close>: \<^verbatim>\<open>dict.__init__(self)\<close> leaves the table empty,
  then \<^verbatim>\<open>self.update\<close> loads it. An exception leaves no object.
\<close>

definition Aliases :: "os_env \<Rightarrow> alias_iterable \<Rightarrow> (string \<times> string option) list
     \<Rightarrow> error + aliases" where
  "Aliases env alias_iterable alias_path =
     (case update env alias_iterable alias_path [] of
        (Inl e, _) \<Rightarrow> Inl e
      | (Inr _, self) \<Rightarrow> Inr self)"

text \<open>
  A call \<^verbatim>\<open>Aliases(**kwargs)\<close>. Python binds the keywords to the parameters first:
  \<^verbatim>\<open>__init__(self, *args, **kwargs)\<close> already has its \<^verbatim>\<open>self\<close>, so a keyword of that name is a
  \<^verbatim>\<open>TypeError\<close>; \<^verbatim>\<open>__init__\<close> passes the rest on to \<^verbatim>\<open>update(self, alias_iterable=None,
  **alias_path)\<close>, where a keyword named \<^verbatim>\<open>alias_iterable\<close> is that parameter, not an entry
  of \<^verbatim>\<open>alias_path\<close>.
\<close>

definition multiple_values_msg :: string where
  "multiple_values_msg = ''__init__() got multiple values for argument '' @ [quote] @ ''self'' @ [quote]"

definition Aliases_kwargs :: "os_env \<Rightarrow> (string \<times> string option) list \<Rightarrow> error + aliases" where
  "Aliases_kwargs env kwargs =
     (if ''self'' \<in> set (map fst kwargs) then Inl (TypeError multiple_values_msg)
      else
        (case map_of kwargs ''alias_iterable'' of
           None \<Rightarrow> Aliases env NoIterable kwargs
         | Some None \<Rightarrow>
             Aliases env NoIterable (filter (\<lambda>(k, v). k \<noteq> ''alias_iterable'') kwargs)
         | Some (Some s) \<Rightarrow>
             Aliases env (Str s) (filter (\<lambda>(k, v). k \<noteq> ''alias_iterable'') kwargs)))"

text \<open>
  A call \<^verbatim>\<open>self.update(**kwargs)\<close>, bound in the same way to
  \<^verbatim>\<open>update(self, alias_iterable=None, **alias_path)\<close>: only the keywords that are not names of
  parameters are entries of \<^verbatim>\<open>alias_path\<close>.
\<close>

definition multiple_values_update_msg :: string where
  "multiple_values_update_msg =
     ''update() got multiple values for argument '' @ [quote] @ ''self'' @ [quote]"

definition update_kwargs ::
  "os_env \<Rightarrow> (string \<times> string option) list \<Rightarrow> aliases \<Rightarrow> (error + unit) \<times> aliases" where
  "update_kwargs env kwargs self =
     (if ''self'' \<in> set (map fst kwargs) then (Inl (TypeError multiple_values_update_msg), self)
      else
        (case map_of kwargs ''alias_iterable'' of
           None \<Rightarrow> update env NoIterable kwargs self
         | Some None \<Rightarrow>
             update env NoIterable (filter (\<lambda>(k, v). k \<noteq> ''alias_iterable'') kwargs) self
         | Some (Some s) \<Rightarrow>
             update env (Str s) (filter (\<lambda>(k, v). k \<noteq> ''alias_iterable'') kwargs) self))"

text \<open>
  The table that holds every entry of a list, stored in order under its alias with its
  path expanded: what the loop of \<^verbatim>\<open>__setitem__\<close> is to leave when it raises nothing.
\<close>

fun inserted :: "os_env \<Rightarrow> (string \<times> string option) list \<Rightarrow> aliases \<Rightarrow> aliases" where
  "inserted env [] self = self"
| "inserted env ((alias, Some path) # rest) self =
     inserted env rest (dict_setitem alias (expanduser env path) self)"
| "inserted env ((alias, None) # rest) self = inserted env rest self"

subsection \<open>\<^verbatim>\<open>as_dict\<close>, \<^verbatim>\<open>copy\<close>, \<^verbatim>\<open>user_defined\<close>, \<^verbatim>\<open>default\<close>\<close>

definition as_dict :: "aliases \<Rightarrow> (string \<times> string) list" where
  "as_dict self = self"

text \<open>\<^verbatim>\<open>return Aliases(**self.as_dict())\<close>\<close>

definition copy :: "os_env \<Rightarrow> aliases \<Rightarrow> error + aliases" where
  "copy env self = Aliases_kwargs env (map (\<lambda>(a, p). (a, Some p)) (as_dict self))"

text \<open>
  \<^verbatim>\<open>settings.DEFAULT_ALIASES\<close> is a constant of \<^verbatim>\<open>fsnav/settings.py\<close>, which is not among the
  sources; the two methods only test membership of an alias in it, so the set of its
  aliases is a parameter.
  \<^verbatim>\<open>return Aliases({a: p for a, p in self.items() if a not in settings.DEFAULT_ALIASES})\<close>
\<close>

definition user_defined :: "os_env \<Rightarrow> string set \<Rightarrow> aliases \<Rightarrow> error + aliases" where
  "user_defined env DEFAULT_ALIASES self =
     Aliases env
       (Mapping (map (\<lambda>(a, p). (a, Some p)) (filter (\<lambda>(a, p). a \<notin> DEFAULT_ALIASES) self))) []"

definition default :: "os_env \<Rightarrow> string set \<Rightarrow> aliases \<Rightarrow> error + aliases" where
  "default env DEFAULT_ALIASES self =
     Aliases env
       (Mapping (map (\<lambda>(a, p). (a, Some p)) (filter (\<lambda>(a, p). a \<in> DEFAULT_ALIASES) self))) []"

subsection \<open>\<^verbatim>\<open>count\<close>\<close>







subsection \<open>Bindings that are still valid\<close>

text \<open>
  The bindings of a table were valid when they were inserted, on the machine as it was
  then. \<open>still_valid env T\<close> says that they pass \<^verbatim>\<open>__setitem__\<close> again on the machine \<open>env\<close>
  unchanged: each alias matches, each stored path is what its own expansion gives, and
  the test of the path does not raise.
\<close>

definition still_valid :: "os_env \<Rightarrow> aliases \<Rightarrow> bool" where
  "still_valid env T \<longleftrightarrow>
     list_all (\<lambda>(a, p). ALIAS_REGEX_match a \<and> expanduser env p = p
                \<and> (isdir env p \<or> access_X_OK env p)) T"

section \<open>A machine to run the definitions on\<close>

text \<open>
  \<open>HOME\<close> is \<^verbatim>\<open>/home/user\<close> and there is no other user: \<^verbatim>\<open>~\<close> and \<^verbatim>\<open>~/...\<close> expand,
  \<^verbatim>\<open>~name\<close> stays. \<^verbatim>\<open>/locked\<close> is a directory without the execute permission,
  \<^verbatim>\<open>/bin/sh\<close> an executable file, \<^verbatim>\<open>/etc/hostname\<close> a plain file, \<^verbatim>\<open>stale\<close> a symbolic
  link to nothing. The working directory holds \<^verbatim>\<open>a.txt\<close>, \<^verbatim>\<open>b.txt\<close> and \<^verbatim>\<open>docs\<close>.
\<close>

definition demo_expanduser :: "string \<Rightarrow> string" where
  "demo_expanduser path =
     (if path = ''~'' then ''/home/user''
      else if take 2 path = ''~/'' then ''/home/user'' @ drop 1 path
      else path)"

definition demo_dirs :: "string list" where
  "demo_dirs = [''/tmp'', ''/home/user'', ''/home/user/'', ''/home/user/Desktop'', ''docs'']"

definition demo_files :: "string list" where
  "demo_files = [''/bin/sh'', ''/etc/hostname'', ''a.txt'', ''b.txt'']"

definition demo_env :: os_env where
  "demo_env =
     \<lparr> expanduser = demo_expanduser,
       isdir = (\<lambda>p. p \<in> set (''/locked'' # demo_dirs)),
       access_X_OK = (\<lambda>p. p \<in> set (''/bin/sh'' # demo_dirs)),
       path_exists = (\<lambda>p. p \<in> set (''/locked'' # demo_dirs @ demo_files)),
       lexists = (\<lambda>p. p \<in> set (''stale'' # ''/locked'' # demo_dirs @ demo_files)),
       wildcard = (\<lambda>p. if p = ''*'' then [''a.txt'', ''b.txt'', ''docs'']
                        else if p = ''*.txt'' then [''a.txt'', ''b.txt''] else []) \<rparr>"

text \<open>The same machine after \<^verbatim>\<open>/tmp\<close> has been removed.\<close>

definition demo_env_later :: os_env where
  "demo_env_later =
     demo_env \<lparr> isdir := (\<lambda>p. p \<noteq> ''/tmp'' \<and> isdir demo_env p),
                access_X_OK := (\<lambda>p. p \<noteq> ''/tmp'' \<and> access_X_OK demo_env p),
                path_exists := (\<lambda>p. p \<noteq> ''/tmp'' \<and> path_exists demo_env p),
                lexists := (\<lambda>p. p \<noteq> ''/tmp'' \<and> lexists demo_env p) \<rparr>"

section \<open>Facts about the dictionary\<close>

lemma map_of_dict_setitem: "map_of (dict_setitem k v d) = (map_of d)(k \<mapsto> v)"
  by (induction d) (auto simp: fun_eq_iff)

lemma keys_dict_setitem:
  "set (map fst (dict_setitem k v d)) = insert k (set (map fst d))"
proof (induction d)
  case Nil
  show ?case by simp
next
  case (Cons kv d)
  obtain k' v' where kv: "kv = (k', v')" by (cases kv)
  show ?case
  proof (cases "k' = k")
    case True
    with kv show ?thesis by simp
  next
    case False
    with kv Cons.IH show ?thesis by (simp add: insert_commute)
  qed
qed

lemma distinct_dict_setitem:
  "distinct (map fst d) \<Longrightarrow> distinct (map fst (dict_setitem k v d))"
proof (induction d)
  case Nil
  show ?case by simp
next
  case (Cons kv d)
  obtain k' v' where kv: "kv = (k', v')" by (cases kv)
  show ?case
  proof (cases "k' = k")
    case True
    with Cons.prems kv show ?thesis by simp
  next
    case False
    have "k' \<notin> set (map fst (dict_setitem k v d))"
      using Cons.prems kv False unfolding keys_dict_setitem by simp
    with Cons kv False show ?thesis by simp
  qed
qed

lemma dict_setitem_new: "k \<notin> set (map fst d) \<Longrightarrow> dict_setitem k v d = d @ [(k, v)]"
  by (induction d) auto

lemmas demo_simps =
  demo_env_def demo_env_later_def demo_expanduser_def demo_dirs_def demo_files_def
  ALIAS_REGEX_match_def alias_char_def
  quote_def path_none_msg_def invalid_alias_msg_def invalid_path_msg_def unpack_msg_def
  multiple_values_msg_def multiple_values_update_msg_def

section \<open>Insert: \<^verbatim>\<open>Aliases.__setitem__\<close>\<close>

text \<open>
  C4. \<^verbatim>\<open>Insert(a, None)\<close> fails with the path error (\<^verbatim>\<open>ValueError\<close>, "Path cannot be
  NoneType") whatever the alias is, valid or not, and whatever the machine: the test for
  \<^verbatim>\<open>None\<close> is the first thing \<^verbatim>\<open>__setitem__\<close> does, before the alias is looked at. The
  table is as it was.
\<close>

theorem setitem_None:
  "setitem env a None T = (Inl (ValueError ''Path cannot be NoneType''), T)"
  by (simp add: setitem_def path_none_msg_def)

theorem setitem_None_witness:
  "setitem demo_env ''my alias'' None [(''home'', ''/home/user'')]
     = (Inl (ValueError ''Path cannot be NoneType''), [(''home'', ''/home/user'')])
   \<and> \<not> ALIAS_REGEX_match ''my alias''"
  using setitem_None [of demo_env "''my alias''" "[(''home'', ''/home/user'')]"]
  by (simp add: demo_simps)

text \<open>
  C2. An alias with a character outside \<^verbatim>\<open>[A-Za-z0-9_-]\<close> (a space, \<^verbatim>\<open>*\<close>, \<^verbatim>\<open>.\<close>) is refused
  with the alias error (\<^verbatim>\<open>KeyError\<close>, "Aliases can only contain ..."), whatever path string
  comes with it and whatever the machine, and the table is as it was.
\<close>

theorem setitem_invalid_alias:
  "c \<in> set a \<Longrightarrow> \<not> alias_char c \<Longrightarrow>
     setitem env a (Some p) T = (Inl (KeyError (invalid_alias_msg a)), T)"
proof -
  assume "c \<in> set a" and "\<not> alias_char c"
  then have "\<not> list_all alias_char a"
    by (auto simp: list_all_iff)
  then have "\<not> ALIAS_REGEX_match a"
    by (simp add: ALIAS_REGEX_match_def)
  then show ?thesis
    by (simp add: setitem_def)
qed

theorem setitem_invalid_alias_witness:
  "CHR '' '' \<in> set ''my alias'' \<and> \<not> alias_char (CHR '' '')
   \<and> isdir demo_env ''/tmp'' \<and> access_X_OK demo_env ''/tmp''
   \<and> setitem demo_env ''my alias'' (Some ''/tmp'') [(''home'', ''/home/user'')]
       = (Inl (KeyError (invalid_alias_msg ''my alias'')), [(''home'', ''/home/user'')])"
proof -
  have 1: "CHR '' '' \<in> set ''my alias''" by simp
  have 2: "\<not> alias_char (CHR '' '')" by (simp add: alias_char_def)
  have 3: "isdir demo_env ''/tmp'' \<and> access_X_OK demo_env ''/tmp''" by (simp add: demo_simps)
  from setitem_invalid_alias [OF 1 2, of demo_env "''/tmp''" "[(''home'', ''/home/user'')]"] 1 2 3
  show ?thesis by blast
qed

text \<open>
  C3. A valid alias and a path whose expansion is a directory the process may enter:
  \<^verbatim>\<open>Insert\<close> succeeds, the table holds the alias bound to the expanded path, and
  \<^verbatim>\<open>Lookup\<close> gives the expanded path back, not the argument.
\<close>

theorem setitem_valid:
  "ALIAS_REGEX_match a \<Longrightarrow> isdir env (expanduser env p) \<Longrightarrow> access_X_OK env (expanduser env p) \<Longrightarrow>
     setitem env a (Some p) T = (Inr (), dict_setitem a (expanduser env p) T)
     \<and> getitem a (dict_setitem a (expanduser env p) T) = Inr (expanduser env p)"
  by (simp add: setitem_def getitem_def map_of_dict_setitem)

theorem setitem_valid_witness:
  "ALIAS_REGEX_match ''home'' \<and> expanduser demo_env ''~/'' = ''/home/user/''
   \<and> isdir demo_env ''/home/user/'' \<and> access_X_OK demo_env ''/home/user/''
   \<and> setitem demo_env ''home'' (Some ''~/'') [] = (Inr (), [(''home'', ''/home/user/'')])
   \<and> getitem ''home'' [(''home'', ''/home/user/'')] = Inr ''/home/user/''"
proof -
  have 1: "ALIAS_REGEX_match ''home''" by (simp add: demo_simps)
  have e: "expanduser demo_env ''~/'' = ''/home/user/''" by (simp add: demo_simps)
  have 2: "isdir demo_env (expanduser demo_env ''~/'')" by (simp add: demo_simps)
  have 3: "access_X_OK demo_env (expanduser demo_env ''~/'')" by (simp add: demo_simps)
  from setitem_valid [OF 1 2 3, of "[]"] 1 2 3 e
  show ?thesis by simp
qed

text \<open>
  With a valid alias, the path error is raised exactly when the expanded path is neither
  a directory nor executable: the test is \<^verbatim>\<open>not isdir(path) and not access(path, X_OK)\<close>.
\<close>

lemma setitem_path_rejected_iff:
  "ALIAS_REGEX_match a \<Longrightarrow>
     (setitem env a (Some p) T = (Inl (ValueError (invalid_path_msg (expanduser env p))), T))
       = (\<not> isdir env (expanduser env p) \<and> \<not> access_X_OK env (expanduser env p))"
  by (auto simp: setitem_def)

text \<open>
  C1. The claim is that \<^verbatim>\<open>Insert\<close> takes only paths that are directories and accessible,
  as the docstrings of the class and of \<^verbatim>\<open>__setitem__\<close> say ("directories must exist and be
  executable"). The code takes an executable file that is no directory, and a directory
  the process may not enter: each fails only one half of the conjunction.
\<close>

theorem setitem_accepts_file_and_locked:
  "\<not> isdir demo_env ''/bin/sh''
   \<and> setitem demo_env ''sh'' (Some ''/bin/sh'') [] = (Inr (), [(''sh'', ''/bin/sh'')])
   \<and> isdir demo_env ''/locked'' \<and> \<not> access_X_OK demo_env ''/locked''
   \<and> setitem demo_env ''locked'' (Some ''/locked'') [] = (Inr (), [(''locked'', ''/locked'')])"
  by (simp add: setitem_def demo_simps)

section \<open>SetDefault: \<^verbatim>\<open>Aliases.setdefault\<close>\<close>

text \<open>
  C5. When the alias is bound to \<open>p\<close>, \<^verbatim>\<open>SetDefault\<close> returns \<open>p\<close> and leaves the table as
  it was, whatever the second argument is (a path, valid or not, or none) and whatever
  the machine: nothing is validated.
\<close>

theorem setdefault_bound:
  "map_of T a = Some p \<Longrightarrow> setdefault env a q T = (Inr p, T)"
  by (simp add: setdefault_def getitem_def)

theorem setdefault_bound_witness:
  "map_of [(''home'', ''/existing'')] ''home'' = Some ''/existing''
   \<and> setdefault demo_env ''home'' (Some ''/tmp'') [(''home'', ''/existing'')]
       = (Inr ''/existing'', [(''home'', ''/existing'')])
   \<and> setdefault demo_env ''home'' None [(''home'', ''/existing'')]
       = (Inr ''/existing'', [(''home'', ''/existing'')])
   \<and> \<not> isdir demo_env ''/existing'' \<and> \<not> access_X_OK demo_env ''/existing''"
proof -
  have 1: "map_of [(''home'', ''/existing'')] ''home'' = Some ''/existing''" by simp
  have 2: "\<not> isdir demo_env ''/existing'' \<and> \<not> access_X_OK demo_env ''/existing''"
    by (simp add: demo_simps)
  from setdefault_bound [OF 1, of demo_env "Some ''/tmp''"]
    setdefault_bound [OF 1, of demo_env None] 1 2
  show ?thesis by blast
qed

text \<open>
  C10. When the alias is not bound and the path is left out, the default \<^verbatim>\<open>None\<close> goes to
  \<^verbatim>\<open>__setitem__\<close>, which raises the path error for \<^verbatim>\<open>None\<close>; the table is as it was.
\<close>

theorem setdefault_unbound_None:
  "map_of T a = None \<Longrightarrow>
     setdefault env a None T = (Inl (ValueError ''Path cannot be NoneType''), T)"
  by (simp add: setdefault_def getitem_def setitem_def path_none_msg_def)

theorem setdefault_unbound_None_witness:
  "map_of [(''home'', ''/home/user'')] ''desk'' = None
   \<and> setdefault demo_env ''desk'' None [(''home'', ''/home/user'')]
       = (Inl (ValueError ''Path cannot be NoneType''), [(''home'', ''/home/user'')])"
proof -
  have 1: "map_of [(''home'', ''/home/user'')] ''desk'' = None" by simp
  from setdefault_unbound_None [OF 1, of demo_env] 1
  show ?thesis by blast
qed

section \<open>Merge: \<^verbatim>\<open>Aliases.update\<close>\<close>

text \<open>A failed \<^verbatim>\<open>__setitem__\<close> leaves the table as it was; the loops compose.\<close>

lemma setitem_error_keeps: "setitem env a p T = (Inl e, T') \<Longrightarrow> T' = T"
  by (auto simp: setitem_def Let_def split: option.splits if_splits)

lemma setitems_append:
  "setitems env (xs @ ys) T =
     (case setitems env xs T of
        (Inl e, T') \<Rightarrow> (Inl e, T')
      | (Inr u, T') \<Rightarrow> setitems env ys T')"
proof (induction xs arbitrary: T)
  case Nil
  show ?case by simp
next
  case (Cons x xs)
  obtain a p where x: "x = (a, p)" by (cases x)
  show ?case
  proof (cases "setitem env a p T")
    case (Pair r T1)
    then show ?thesis using Cons.IH [of T1] x by (cases r) simp_all
  qed
qed

lemma mapping_items_distinct: "distinct (map fst m) \<Longrightarrow> mapping_items m = m"
proof -
  assume d: "distinct (map fst m)"
  have "map (\<lambda>kv. (fst kv, the (map_of m (fst kv)))) m = map (\<lambda>kv. kv) m"
  proof (rule map_cong [OF refl])
    fix kv assume kv: "kv \<in> set m"
    have "map_of m (fst kv) = Some (snd kv)"
      using d kv by (simp add: map_of_eq_Some_iff)
    then show "(fst kv, the (map_of m (fst kv))) = kv" by simp
  qed
  then show ?thesis by (simp add: mapping_items_def comp_def)
qed

text \<open>
  The loop stores what it accepts: when it raises nothing, the table holds every entry,
  and every entry was valid.
\<close>

lemma setitems_inserted:
  "setitems env xs T = (Inr (), T') \<Longrightarrow>
     T' = inserted env xs T
     \<and> list_all (\<lambda>(a, p). \<exists>q. p = Some q \<and> ALIAS_REGEX_match a
                      \<and> (isdir env (expanduser env q) \<or> access_X_OK env (expanduser env q))) xs"
proof (induction xs arbitrary: T)
  case Nil
  then show ?case by simp
next
  case (Cons x xs)
  obtain a p where x: "x = (a, p)" by (cases x)
  show ?case
  proof (cases "setitem env a p T")
    case (Pair r T1)
    show ?thesis
    proof (cases r)
      case (Inl e)
      with Pair Cons.prems x show ?thesis by simp
    next
      case (Inr u)
      with Pair Cons.prems x have rest: "setitems env xs T1 = (Inr (), T')"
        by simp
      from Pair Inr obtain q where q: "p = Some q" "ALIAS_REGEX_match a"
          "isdir env (expanduser env q) \<or> access_X_OK env (expanduser env q)"
          "T1 = dict_setitem a (expanduser env q) T"
        by (auto simp: setitem_def Let_def split: option.splits if_splits)
      from Cons.IH [OF rest] q x show ?thesis
        by simp
    qed
  qed
qed

text \<open>
  Given its parameters, \<^verbatim>\<open>update\<close> is the loop of \<^verbatim>\<open>__setitem__\<close> over the entries of
  \<^verbatim>\<open>alias_iterable\<close> (none, the items of a dictionary, or the pairs of a sequence) followed
  by the entries of \<^verbatim>\<open>alias_path\<close>, in that order. It is not atomic: when the entries before
  some entry have all been accepted and that entry is refused, the call ends with that
  entry's error and the table holds the earlier entries: nothing is rolled back, and the
  later entries are never looked at.
\<close>

lemma update_setitems:
  "update env NoIterable kw T = setitems env kw T
   \<and> update env (Pairs ps) kw T = setitems env (ps @ kw) T
   \<and> (distinct (map fst m) \<longrightarrow> update env (Mapping m) kw T = setitems env (m @ kw) T)
   \<and> (setitems env xs T = (Inr (), T') \<longrightarrow> T' = inserted env xs T)
   \<and> (setitems env xs T = (Inr (), T') \<and> setitem env a p T' = (Inl e, T'')
        \<longrightarrow> setitems env (xs @ (a, p) # ys) T = (Inl e, inserted env xs T))"
proof (intro conjI impI)
  show "update env NoIterable kw T = setitems env kw T"
    by (simp add: update_def)
  show "update env (Pairs ps) kw T = setitems env (ps @ kw) T"
    by (cases "setitems env ps T") (auto simp: update_def setitems_append split: sum.splits)
  show "update env (Mapping m) kw T = setitems env (m @ kw) T" if "distinct (map fst m)"
    using mapping_items_distinct [OF that]
    by (cases "setitems env m T") (auto simp: update_def setitems_append split: sum.splits)
  show "T' = inserted env xs T" if "setitems env xs T = (Inr (), T')"
    using setitems_inserted [OF that] by simp
  show "setitems env (xs @ (a, p) # ys) T = (Inl e, inserted env xs T)"
    if "setitems env xs T = (Inr (), T') \<and> setitem env a p T' = (Inl e, T'')"
    using that setitem_error_keeps [of env a p T' e T''] setitems_inserted [of env xs T T']
    by (simp add: setitems_append)
qed

lemma update_setitems_example:
  "update demo_env (Pairs [(''home'', Some ''~/''), (''my alias'', Some ''/tmp''), (''tmp'', Some ''/tmp'')])
         [(''desk'', Some ''~/Desktop'')] []
       = (Inl (KeyError (invalid_alias_msg ''my alias'')), [(''home'', ''/home/user/'')])
   \<and> update demo_env (Mapping [(''home'', Some ''~/'')]) [(''desk'', Some ''~/Desktop'')] []
       = (Inr (), [(''home'', ''/home/user/''), (''desk'', ''/home/user/Desktop'')])
   \<and> update demo_env NoIterable [(''desk'', Some ''~/Desktop'')] []
       = (Inr (), [(''desk'', ''/home/user/Desktop'')])"
proof -
  have s1: "setitems demo_env [(''home'', Some ''~/'')] [] = (Inr (), [(''home'', ''/home/user/'')])"
    by (simp add: setitem_def demo_simps)
  have s2: "setitem demo_env ''my alias'' (Some ''/tmp'') [(''home'', ''/home/user/'')]
      = (Inl (KeyError (invalid_alias_msg ''my alias'')), [(''home'', ''/home/user/'')])"
    by (simp add: setitem_def demo_simps)
  have s3: "setitems demo_env [(''home'', Some ''~/''), (''desk'', Some ''~/Desktop'')] []
      = (Inr (), [(''home'', ''/home/user/''), (''desk'', ''/home/user/Desktop'')])"
    by (simp add: setitem_def demo_simps)
  have s4: "setitems demo_env [(''desk'', Some ''~/Desktop'')] []
      = (Inr (), [(''desk'', ''/home/user/Desktop'')])"
    by (simp add: setitem_def demo_simps)
  have d: "distinct (map fst [(''home'', Some ''~/'')])"
    by simp
  from update_setitems [where env = demo_env and kw = "[(''desk'', Some ''~/Desktop'')]" and T = "[]"
      and ps = "[(''home'', Some ''~/''), (''my alias'', Some ''/tmp''), (''tmp'', Some ''/tmp'')]"
      and m = "[(''home'', Some ''~/'')]" and xs = "[(''home'', Some ''~/'')]"
      and T' = "[(''home'', ''/home/user/'')]" and a = "''my alias''" and p = "Some ''/tmp''"
      and e = "KeyError (invalid_alias_msg ''my alias'')" and T'' = "[(''home'', ''/home/user/'')]"
      and ys = "[(''tmp'', Some ''/tmp''), (''desk'', Some ''~/Desktop'')]"]
    s1 s2 s3 s4 d
  show ?thesis by simp
qed

text \<open>
  C7. The claim is that every entry of the keyword arguments of \<^verbatim>\<open>Merge\<close> goes through
  \<^verbatim>\<open>Insert\<close>, in the order given, as the docstring of \<^verbatim>\<open>update\<close> says ("force usage of new
  \<^verbatim>\<open>self.__setitem__()\<close>"). \<^verbatim>\<open>alias_iterable\<close> is an alias that \<^verbatim>\<open>Insert\<close> accepts, and it is
  the name of \<^verbatim>\<open>update\<close>'s first parameter: given as a keyword, the binding is that
  parameter, \<^verbatim>\<open>__setitem__\<close> is never called for it, and iterating the path raises
  \<^verbatim>\<open>ValueError\<close>, before the keyword that was given first is looked at. Without that
  keyword the same call inserts its entries in order.
\<close>

theorem update_keyword_alias_iterable:
  "setitem demo_env ''alias_iterable'' (Some ''/tmp'') [] = (Inr (), [(''alias_iterable'', ''/tmp'')])
   \<and> update_kwargs demo_env [(''alias_iterable'', Some ''/tmp'')] [] = (Inl (ValueError unpack_msg), [])
   \<and> update_kwargs demo_env [(''home'', Some ''~/''), (''alias_iterable'', Some ''/tmp'')] []
       = (Inl (ValueError unpack_msg), [])
   \<and> update_kwargs demo_env [(''home'', Some ''~/''), (''tmp'', Some ''/tmp'')] []
       = (Inr (), [(''home'', ''/home/user/''), (''tmp'', ''/tmp'')])"
  by (simp add: setitem_def update_kwargs_def update_def demo_simps)

section \<open>Partition: \<^verbatim>\<open>Aliases.user_defined\<close> and \<^verbatim>\<open>Aliases.default\<close>\<close>

text \<open>
  Both methods build their result with \<^verbatim>\<open>Aliases({...})\<close>, so every binding they keep goes
  through \<^verbatim>\<open>__setitem__\<close> once more. Loading bindings that are still valid, under distinct
  aliases, gives back exactly these bindings.
\<close>

lemma setitems_still_valid:
  "distinct (map fst (acc @ xs)) \<Longrightarrow> still_valid env xs \<Longrightarrow>
     setitems env (map (\<lambda>(a, p). (a, Some p)) xs) acc = (Inr (), acc @ xs)"
proof (induction xs arbitrary: acc)
  case Nil
  show ?case by simp
next
  case (Cons x xs)
  obtain a p where x: "x = (a, p)" by (cases x)
  from Cons.prems(2) x have ok: "ALIAS_REGEX_match a" "expanduser env p = p"
      "isdir env p \<or> access_X_OK env p" and rest: "still_valid env xs"
    by (simp_all add: still_valid_def)
  from Cons.prems(1) x have new: "a \<notin> set (map fst acc)"
    and d: "distinct (map fst ((acc @ [(a, p)]) @ xs))"
    by auto
  have step: "setitem env a (Some p) acc = (Inr (), acc @ [(a, p)])"
    using ok new by (auto simp: setitem_def dict_setitem_new)
  show ?case
    using Cons.IH [OF d rest] step x by simp
qed

lemma Aliases_Mapping_still_valid:
  assumes "distinct (map fst xs)" and "still_valid env xs"
  shows "Aliases env (Mapping (map (\<lambda>(a, p). (a, Some p)) xs)) [] = Inr xs"
proof -
  have k: "map fst (map (\<lambda>(a, p). (a, Some p)) xs) = map fst xs"
    by (induction xs) auto
  have m: "mapping_items (map (\<lambda>(a, p). (a, Some p)) xs) = map (\<lambda>(a, p). (a, Some p)) xs"
    by (rule mapping_items_distinct) (simp only: k assms(1))
  have s: "setitems env (map (\<lambda>(a, p). (a, Some p)) xs) [] = (Inr (), xs)"
    using setitems_still_valid [of "[]" xs env] assms by simp
  show ?thesis
  proof (cases "xs = []")
    case True
    then show ?thesis by (simp add: Aliases_def update_def)
  next
    case False
    then show ?thesis by (simp add: Aliases_def update_def m s)
  qed
qed

lemma still_valid_filter: "still_valid env T \<Longrightarrow> still_valid env (filter P T)"
  by (simp add: still_valid_def list_all_iff)

text \<open>
  C6, as the claim states it, for every table: it fails. A binding inserted while
  \<^verbatim>\<open>/tmp\<close> was a directory is in the table and its alias is not a default one; once the
  directory is gone, \<^verbatim>\<open>user_defined\<close>, which keeps the binding, raises the path error for
  it, and \<^verbatim>\<open>default\<close>, which keeps nothing, returns the empty table. There are no two
  tables whose bindings together are the table's.
\<close>

theorem user_defined_stale_counterexample:
  "setitem demo_env ''tmp'' (Some ''/tmp'') [] = (Inr (), [(''tmp'', ''/tmp'')])
   \<and> user_defined demo_env_later {''home''} [(''tmp'', ''/tmp'')]
       = Inl (ValueError (invalid_path_msg ''/tmp''))
   \<and> default demo_env_later {''home''} [(''tmp'', ''/tmp'')] = Inr []"
  by (simp add: setitem_def user_defined_def default_def Aliases_def update_def
      mapping_items_def demo_simps)

text \<open>
  C6, amended: for every table whose bindings are all still valid and every set \<open>D\<close> of
  default aliases, \<^verbatim>\<open>user_defined\<close> and \<^verbatim>\<open>default\<close> both return a table: the first holds
  the bindings whose alias is not in \<open>D\<close>, the second those whose alias is in \<open>D\<close>;
  together they are the bindings of the table, and no binding is in both.
\<close>

theorem partition_still_valid:
  "distinct (map fst T) \<Longrightarrow> still_valid env T \<Longrightarrow>
     user_defined env D T = Inr (filter (\<lambda>(a, p). a \<notin> D) T)
     \<and> default env D T = Inr (filter (\<lambda>(a, p). a \<in> D) T)
     \<and> set (filter (\<lambda>(a, p). a \<notin> D) T) \<union> set (filter (\<lambda>(a, p). a \<in> D) T) = set T
     \<and> set (filter (\<lambda>(a, p). a \<notin> D) T) \<inter> set (filter (\<lambda>(a, p). a \<in> D) T) = {}"
proof (intro conjI)
  assume d: "distinct (map fst T)" and v: "still_valid env T"
  show "user_defined env D T = Inr (filter (\<lambda>(a, p). a \<notin> D) T)"
    unfolding user_defined_def
    by (rule Aliases_Mapping_still_valid) (simp_all add: d distinct_map_filter v still_valid_filter)
  show "default env D T = Inr (filter (\<lambda>(a, p). a \<in> D) T)"
    unfolding default_def
    by (rule Aliases_Mapping_still_valid) (simp_all add: d distinct_map_filter v still_valid_filter)
  show "set (filter (\<lambda>(a, p). a \<notin> D) T) \<union> set (filter (\<lambda>(a, p). a \<in> D) T) = set T"
    by auto
  show "set (filter (\<lambda>(a, p). a \<notin> D) T) \<inter> set (filter (\<lambda>(a, p). a \<in> D) T) = {}"
    by auto
qed

theorem partition_still_valid_witness:
  "distinct (map fst [(''home'', ''/home/user''), (''tmp'', ''/tmp''), (''desk'', ''/home/user/Desktop'')])
   \<and> still_valid demo_env [(''home'', ''/home/user''), (''tmp'', ''/tmp''), (''desk'', ''/home/user/Desktop'')]
   \<and> user_defined demo_env {''home'', ''desk''}
         [(''home'', ''/home/user''), (''tmp'', ''/tmp''), (''desk'', ''/home/user/Desktop'')]
       = Inr [(''tmp'', ''/tmp'')]
   \<and> default demo_env {''home'', ''desk''}
         [(''home'', ''/home/user''), (''tmp'', ''/tmp''), (''desk'', ''/home/user/Desktop'')]
       = Inr [(''home'', ''/home/user''), (''desk'', ''/home/user/Desktop'')]"
proof -
  have d: "distinct (map fst [(''home'', ''/home/user''), (''tmp'', ''/tmp''), (''desk'', ''/home/user/Desktop'')])"
    by simp
  have v: "still_valid demo_env [(''home'', ''/home/user''), (''tmp'', ''/tmp''), (''desk'', ''/home/user/Desktop'')]"
    by (simp add: still_valid_def demo_simps)
  from partition_still_valid [OF d v, of "{''home'', ''desk''}"] d v
  show ?thesis by simp
qed

section \<open>Copy: \<^verbatim>\<open>Aliases.copy\<close>\<close>

text \<open>
  When no alias of the table is \<^verbatim>\<open>self\<close> or \<^verbatim>\<open>alias_iterable\<close>, the copy of a table whose
  bindings are still valid is the table.
\<close>

lemma copy_still_valid:
  assumes "distinct (map fst T)" and "still_valid env T"
    and "''self'' \<notin> set (map fst T)" and "''alias_iterable'' \<notin> set (map fst T)"
  shows "copy env T = Inr T"
proof -
  let ?kw = "map (\<lambda>(a, p). (a, Some p)) T"
  have k: "map fst ?kw = map fst T"
    by (induction T) auto
  have no_self: "''self'' \<notin> set (map fst ?kw)"
    unfolding k by (rule assms(3))
  have ks: "fst ` set ?kw = fst ` set T"
    by force
  have "''alias_iterable'' \<notin> fst ` set T"
    using assms(4) by simp
  then have n: "map_of ?kw ''alias_iterable'' = None"
    unfolding map_of_eq_None_iff ks .
  have s: "setitems env ?kw [] = (Inr (), T)"
    using setitems_still_valid [of "[]" T env] assms(1,2) by simp
  have A: "Aliases env NoIterable ?kw = Inr T"
    by (simp add: Aliases_def update_def s)
  show ?thesis
    by (simp only: copy_def as_dict_def Aliases_kwargs_def no_self if_False n option.case A)
qed

text \<open>
  C8. The claim is that \<^verbatim>\<open>Copy\<close> of a table whose bindings are still valid returns a table
  with the same bindings, as the docstring of \<^verbatim>\<open>copy\<close> says. \<^verbatim>\<open>copy\<close> passes the bindings as
  keywords, \<^verbatim>\<open>Aliases(**self.as_dict())\<close>, and two valid aliases are names of parameters:
  the path bound to \<^verbatim>\<open>alias_iterable\<close> becomes the argument \<^verbatim>\<open>alias_iterable\<close> of \<^verbatim>\<open>update\<close>,
  a string whose characters do not unpack into pairs (\<^verbatim>\<open>ValueError\<close>), and \<^verbatim>\<open>self\<close> is
  given twice (\<^verbatim>\<open>TypeError\<close>). Both tables are built by \<^verbatim>\<open>__setitem__\<close> on the same machine;
  neither has a copy. \<^verbatim>\<open>user_defined\<close> and \<^verbatim>\<open>default\<close> pass a dictionary and do not fail so.
\<close>

theorem copy_keyword_clash:
  "setitem demo_env ''alias_iterable'' (Some ''/tmp'') [] = (Inr (), [(''alias_iterable'', ''/tmp'')])
   \<and> still_valid demo_env [(''alias_iterable'', ''/tmp'')]
   \<and> copy demo_env [(''alias_iterable'', ''/tmp'')] = Inl (ValueError unpack_msg)
   \<and> setitem demo_env ''self'' (Some ''/tmp'') [] = (Inr (), [(''self'', ''/tmp'')])
   \<and> copy demo_env [(''self'', ''/tmp'')] = Inl (TypeError multiple_values_msg)
   \<and> copy demo_env [(''tmp'', ''/tmp'')] = Inr [(''tmp'', ''/tmp'')]"
  by (simp add: setitem_def still_valid_def copy_def as_dict_def Aliases_kwargs_def Aliases_def
      update_def demo_simps)

section \<open>Count: \<^verbatim>\<open>count\<close>\<close>






end
